theory Spec2Isabelle
  imports Complex_Main "HOL-Library.Code_Target_Nat"
begin

section \<open>Python strings\<close>

text \<open>
  A Python \<open>str\<close> is a sequence of Unicode code points, and is modelled as a list of
  natural numbers. \<open>ascii\<close> writes such a string from its ASCII text.
\<close>

type_synonym codepoint = nat

type_synonym str = "codepoint list"

definition ascii :: "string \<Rightarrow> str" where
  "ascii s = map of_char s"

abbreviation (input) UNDERSCORE :: codepoint where
  "UNDERSCORE \<equiv> 0x5F"

abbreviation (input) HYPHEN :: codepoint where
  "HYPHEN \<equiv> 0x2D"

abbreviation (input) SPACE :: codepoint where
  "SPACE \<equiv> 0x20"

definition isspace :: "codepoint \<Rightarrow> bool" where
  \<comment> \<open>The code points that \<open>str.strip()\<close> removes and for which \<open>str.isspace()\<close> holds:
      TAB to CR, FS to US, SPACE, NEL, NO-BREAK SPACE, OGHAM SPACE MARK, EN QUAD to
      HAIR SPACE, LINE and PARAGRAPH SEPARATOR, NARROW NO-BREAK SPACE, MEDIUM MATHEMATICAL
      SPACE and IDEOGRAPHIC SPACE.\<close>
  "isspace c =
     ((0x09 \<le> c \<and> c \<le> 0x0D) \<or> (0x1C \<le> c \<and> c \<le> 0x20) \<or> c = 0x85 \<or> c = 0xA0 \<or>
      c = 0x1680 \<or> (0x2000 \<le> c \<and> c \<le> 0x200A) \<or> c = 0x2028 \<or> c = 0x2029 \<or>
      c = 0x202F \<or> c = 0x205F \<or> c = 0x3000)"

definition strip :: "str \<Rightarrow> str" where
  \<comment> \<open>\<open>s.strip()\<close>: leading and trailing whitespace removed.\<close>
  "strip s = rev (dropWhile isspace (rev (dropWhile isspace s)))"

text \<open>
  \<open>s.title()\<close> reads four tables of the Unicode character database of the interpreter:
  which code points are cased, which are case-ignorable, and the full title-case and
  lower-case mappings, each of which may give several code points. The tables come with
  the interpreter, so they are a parameter of the model; the algorithm is the one of
  CPython's \<open>do_title\<close>.
\<close>

record unicode_db =
  IsCased :: "codepoint \<Rightarrow> bool"
  IsCaseIgnorable :: "codepoint \<Rightarrow> bool"
  ToTitleFull :: "codepoint \<Rightarrow> str"
  ToLowerFull :: "codepoint \<Rightarrow> str"

text \<open>
  The lower case of GREEK CAPITAL LETTER SIGMA depends on its context: it is the final
  sigma when a cased code point precedes it, case-ignorable ones skipped, and no cased
  code point follows it, case-ignorable ones skipped. \<open>preceding\<close> holds the preceding
  code points, the nearest first; \<open>following\<close> holds the following ones.
\<close>

definition handle_capital_sigma :: "unicode_db \<Rightarrow> str \<Rightarrow> str \<Rightarrow> codepoint" where
  "handle_capital_sigma u preceding following =
     (case dropWhile (IsCaseIgnorable u) preceding of
        [] \<Rightarrow> 0x3C3
      | p # _ \<Rightarrow>
          if IsCased u p
          then (case dropWhile (IsCaseIgnorable u) following of
                  [] \<Rightarrow> 0x3C2
                | n # _ \<Rightarrow> if IsCased u n then 0x3C3 else 0x3C2)
          else 0x3C3)"

definition lower_ucs4 :: "unicode_db \<Rightarrow> str \<Rightarrow> codepoint \<Rightarrow> str \<Rightarrow> str" where
  "lower_ucs4 u preceding c following =
     (if c = 0x3A3 then [handle_capital_sigma u preceding following] else ToLowerFull u c)"

text \<open>
  A code point that follows a cased one is lower-cased, any other one is title-cased; so
  every maximal run of cased code points starts with a capital and goes on in lower case.
\<close>

fun do_title :: "unicode_db \<Rightarrow> str \<Rightarrow> bool \<Rightarrow> str \<Rightarrow> str" where
  "do_title u preceding previous_is_cased [] = []"
| "do_title u preceding previous_is_cased (c # cs) =
     (if previous_is_cased then lower_ucs4 u preceding c cs else ToTitleFull u c) @
     do_title u (c # preceding) (IsCased u c) cs"

definition title :: "unicode_db \<Rightarrow> str \<Rightarrow> str" where
  "title u s = do_title u [] False s"

definition replace_char :: "codepoint \<Rightarrow> codepoint \<Rightarrow> str \<Rightarrow> str" where
  \<comment> \<open>\<open>s.replace(old, new)\<close> for one-character \<open>old\<close> and \<open>new\<close>.\<close>
  "replace_char old new s = map (\<lambda>c. if c = old then new else c) s"

text \<open>
  \<open>s.split(sep)\<close> for a one-character separator: every occurrence of the separator
  ends a part, so a string with \<open>n\<close> separators gives \<open>n + 1\<close> parts, empty ones included.
\<close>

fun split :: "codepoint \<Rightarrow> str \<Rightarrow> str list" where
  "split sep [] = [[]]"
| "split sep (c # cs) =
     (if c = sep then [] # split sep cs
      else (case split sep cs of
              [] \<Rightarrow> [[c]]
            | p # ps \<Rightarrow> (c # p) # ps))"

text \<open>Truthiness of an optional string: \<open>None\<close> and the empty string are false.\<close>

fun truthy :: "str option \<Rightarrow> bool" where
  "truthy None = False"
| "truthy (Some s) = (s \<noteq> [])"

section \<open>Persistence layer (\<open>backend/database.py\<close>)\<close>

text \<open>
  The two tables. \<open>id_site\<close> and \<open>id_lead\<close> are the \<open>id\<close> primary keys of \<open>Site\<close>
  and \<open>Lead\<close>. Nullable columns are options. A timestamp is a \<open>datetime\<close> counted in
  microseconds.
\<close>

record Site =
  id_site :: nat
  slug :: str
  niche :: str
  city :: str
  partner_email :: "str option"

record Lead =
  id_lead :: nat
  site_id :: nat
  name :: str
  phone :: str
  email :: "str option"
  service :: "str option"
  message :: "str option"
  timestamp :: "int option"
  routed :: bool

record db =
  sites :: "Site list"
  leads :: "Lead list"

text \<open>
  An integer primary key without a value takes the largest key of the table plus one,
  and 1 in an empty table. (This is the rule of SQLite as long as the largest key is below
  the largest 64-bit integer, where it turns to a random unused key.)
\<close>

definition next_id :: "nat list \<Rightarrow> nat" where
  "next_id ids = Suc (fold max ids 0)"

definition query_site_by_slug :: "db \<Rightarrow> str \<Rightarrow> Site option" where
  \<comment> \<open>\<open>db.query(Site).filter_by(slug=site_slug).first()\<close>\<close>
  "query_site_by_slug d s = find (\<lambda>x. slug x = s) (sites d)"

definition add_site :: "db \<Rightarrow> str \<Rightarrow> str \<Rightarrow> str \<Rightarrow> str option \<Rightarrow> db \<times> Site" where
  \<comment> \<open>\<open>db.add(site); db.commit(); db.refresh(site)\<close>: the row with its generated key.\<close>
  "add_site d s n c p =
     (let row = \<lparr>id_site = next_id (map id_site (sites d)), slug = s, niche = n, city = c,
                 partner_email = p\<rparr>
      in (d\<lparr>sites := sites d @ [row]\<rparr>, row))"

definition add_lead :: "db \<Rightarrow> Lead \<Rightarrow> db \<times> Lead" where
  \<comment> \<open>\<open>db.add(lead); db.commit(); db.refresh(lead)\<close>: the key is generated on insert.\<close>
  "add_lead d l =
     (let row = l\<lparr>id_lead := next_id (map id_lead (leads d))\<rparr>
      in (d\<lparr>leads := leads d @ [row]\<rparr>, row))"

definition set_routed :: "db \<Rightarrow> nat \<Rightarrow> db" where
  \<comment> \<open>\<open>lead.routed = True; db.commit()\<close>: an update of the row with the lead's key.\<close>
  "set_routed d k = d\<lparr>leads := map (\<lambda>l. if id_lead l = k then l\<lparr>routed := True\<rparr> else l) (leads d)\<rparr>"

section \<open>Lead intake handler (\<open>backend/app.py\<close>)\<close>

record form =
  f_site_slug :: str
  f_name :: str
  f_phone :: str
  f_email :: "str option"
  f_service :: "str option"
  f_message :: "str option"

datatype http_error = HTTPException nat str

record LeadResponse =
  response_message :: str

definition routed_message :: str where
  "routed_message = ascii ''Thank you! Your request has been routed to our local partner.''"

definition unrouted_message :: str where
  "unrouted_message = ascii ''Thank you for contacting us. We will reach out shortly.''"

definition accepted :: "form \<Rightarrow> bool" where
  \<comment> \<open>the negation of the guard \<open>not name.strip() or not phone.strip()\<close>\<close>
  "accepted r = (strip (f_name r) \<noteq> [] \<and> strip (f_phone r) \<noteq> [])"

definition derive_niche_city :: "unicode_db \<Rightarrow> str \<Rightarrow> str \<times> str" where
  \<comment> \<open>The \<open>try\<close> block: unpacking into two names raises \<open>ValueError\<close> unless the split
      gives exactly two parts, and the handler then falls back to the slug itself.\<close>
  "derive_niche_city u site_slug =
     (case split UNDERSCORE site_slug of
        [niche_part, city_part] \<Rightarrow>
          (title u (replace_char HYPHEN SPACE niche_part),
           title u (replace_char HYPHEN SPACE city_part))
      | _ \<Rightarrow> (site_slug, ascii ''Unknown''))"

definition find_or_create_site :: "unicode_db \<Rightarrow> db \<Rightarrow> str \<Rightarrow> db \<times> Site" where
  \<comment> \<open>lines 68 to 81 of the handler: the lookup, and the insert when it finds no row\<close>
  "find_or_create_site u d site_slug =
     (case query_site_by_slug d site_slug of
        Some site \<Rightarrow> (d, site)
      | None \<Rightarrow>
          (let (n, c) = derive_niche_city u site_slug
           in add_site d site_slug n c None))"

text \<open>
  The handler takes the database before the request and gives the database after it,
  with either the raised \<open>HTTPException\<close> or the response body. \<open>now\<close> is the value
  of \<open>datetime.utcnow()\<close> at the insert of the lead, the default of the timestamp column;
  \<open>u\<close> holds the Unicode tables that \<open>title()\<close> reads.
\<close>

definition create_lead ::
  "unicode_db \<Rightarrow> db \<Rightarrow> int \<Rightarrow> form \<Rightarrow> db \<times> (http_error + LeadResponse)" where
  "create_lead u d now r =
     (if strip (f_name r) = [] \<or> strip (f_phone r) = []
      then (d, Inl (HTTPException 400 (ascii ''Name and phone are required.'')))
      else
        (let (d1, site) = find_or_create_site u d (f_site_slug r);
             (d2, lead) = add_lead d1
               \<lparr>id_lead = 0, site_id = id_site site, name = f_name r, phone = f_phone r,
                email = f_email r, service = f_service r, message = f_message r,
                timestamp = Some now, routed = False\<rparr>
         in if truthy (partner_email site)
            then (set_routed d2 (id_lead lead), Inr \<lparr>response_message = routed_message\<rparr>)
            else (d2, Inr \<lparr>response_message = unrouted_message\<rparr>)))"

section \<open>Outreach trigger (\<open>backend/sales_automation.py\<close>)\<close>

definition LEAD_THRESHOLD :: nat where
  "LEAD_THRESHOLD = 5"

definition timedelta_days :: "int \<Rightarrow> int" where
  \<comment> \<open>\<open>timedelta(days=n)\<close> in microseconds\<close>
  "timedelta_days n = n * 86400 * 1000000"

text \<open>The decimal digits of a count, as an f-string renders an \<open>int\<close>.\<close>

fun str_nat :: "nat \<Rightarrow> str" where
  "str_nat n =
     (if n < 10 then [48 + n]
      else str_nat (n div 10) @ [48 + n mod 10])"

definition recent_lead_count :: "db \<Rightarrow> int \<Rightarrow> Site \<Rightarrow> nat" where
  \<comment> \<open>The count query of the loop body. A row without a timestamp fails the comparison.\<close>
  "recent_lead_count d cutoff site =
     length (filter (\<lambda>l. site_id l = id_site site \<and>
                          (case timestamp l of None \<Rightarrow> False | Some t \<Rightarrow> cutoff \<le> t))
                    (leads d))"

definition email_body :: "Site \<Rightarrow> nat \<Rightarrow> str" where
  "email_body site count =
     ascii ''Hello,'' @ [0x0A, 0x0A] @ ascii ''We operate '' @ niche site @
     ascii '' websites in '' @ city site @ ascii '' and have generated '' @ str_nat count @
     ascii '' high-intent leads '' @
     ascii ''over the past 30 days. We are looking for a local business partner to take these leads on a '' @
     ascii ''pay-per-lead or subscription basis. If you are interested, please reply to discuss pricing.'' @
     [0x0A, 0x0A] @ ascii ''Regards,'' @ [0x0A] @ ascii ''Local Authority Lead Engine''"

definition outreach_prints :: "Site \<Rightarrow> nat \<Rightarrow> str list" where
  \<comment> \<open>the arguments of the two \<open>print\<close> calls made for a site that reaches the threshold\<close>
  "outreach_prints site count =
     [ascii ''Sales Automation: Site '' @ [0x27] @ slug site @ [0x27] @ ascii '' generated '' @
        str_nat count @ ascii '' leads in the last 30 days. '' @
        ascii ''Initiating outreach to potential partners in '' @ city site @ ascii ''.'',
      ascii ''Email content:'' @ [0x0A] @ email_body site count @ [0x0A]]"

text \<open>
  The scan. Its result is the console output, kept per loop iteration: each site that
  triggers outreach comes with the lines printed for it, in the order of the query.
\<close>

definition check_leads_and_trigger_outreach :: "db \<Rightarrow> int \<Rightarrow> (Site \<times> str list) list" where
  "check_leads_and_trigger_outreach d now =
     (let cutoff = now - timedelta_days 30;
          unpartnered = filter (\<lambda>s. partner_email s = None) (sites d)
      in concat (map (\<lambda>site.
                   (let count = recent_lead_count d cutoff site
                    in if count \<ge> LEAD_THRESHOLD then [(site, outreach_prints site count)] else []))
                 unpartnered))"

section \<open>Site generation entry point (\<open>site_generator/generate_site.py\<close>)\<close>

text \<open>
  Paths and file contents are kept as plain \<^typ>\<open>string\<close>s here: \<open>main\<close> only joins
  and compares them.

  What \<open>json.load\<close> returns. A number is the rational it denotes; \<open>JNonFinite\<close> stands for
  the literals \<open>NaN\<close>, \<open>Infinity\<close> and \<open>-Infinity\<close>, which \<open>json.load\<close> reads as well.
\<close>

datatype json =
    JNull
  | JBool bool
  | JNum rat
  | JNonFinite
  | JStr string
  | JArr "json list"
  | JObj "(string \<times> json) list"

datatype py_error =
    FileNotFoundError string
  | IsADirectoryError string
  | JSONDecodeError
  | ValueError string
  | KeyError
  | TypeError
  | OtherError string

datatype node = File string | Dir

type_synonym filesystem = "string \<rightharpoonup> node"

fun json_truthy :: "json \<Rightarrow> bool" where
  "json_truthy JNull = False"
| "json_truthy (JBool b) = b"
| "json_truthy (JNum x) = (x \<noteq> 0)"
| "json_truthy JNonFinite = True"
| "json_truthy (JStr s) = (s \<noteq> [])"
| "json_truthy (JArr xs) = (xs \<noteq> [])"
| "json_truthy (JObj kvs) = (kvs \<noteq> [])"

fun first_entry :: "json \<Rightarrow> py_error + json" where
  \<comment> \<open>\<open>data[0]\<close> on a value that has passed the emptiness check\<close>
  "first_entry (JArr (x # xs)) = Inr x"
| "first_entry (JStr (c # cs)) = Inr (JStr [c])"
| "first_entry (JObj kvs) = Inl KeyError"
| "first_entry _ = Inl TypeError"

definition load_top_niche ::
  "(string \<Rightarrow> json option) \<Rightarrow> filesystem \<Rightarrow> string \<Rightarrow> py_error + json" where
  \<comment> \<open>\<open>json_loads\<close> is the parser of the \<open>json\<close> library; \<open>None\<close> is its \<open>JSONDecodeError\<close>.\<close>
  "load_top_niche json_loads fs data_path =
     (case fs data_path of
        None \<Rightarrow> Inl (FileNotFoundError data_path)
      | Some Dir \<Rightarrow> Inl (IsADirectoryError data_path)
      | Some (File text) \<Rightarrow>
          (case json_loads text of
             None \<Rightarrow> Inl JSONDecodeError
           | Some data \<Rightarrow>
               if \<not> json_truthy data
               then Inl (ValueError ''No niche data found. Run niche_selection.py first.'')
               else first_entry data))"

definition path_join :: "string \<Rightarrow> string \<Rightarrow> string" where
  \<comment> \<open>\<open>os.path.join(a, b)\<close> for a relative \<open>b\<close>\<close>
  "path_join a b = (if a = [] \<or> last a = CHR ''/'' then a @ b else a @ ''/'' @ b)"

text \<open>
  \<open>main\<close>. The directory \<open>DATA_DIR\<close> is fixed when the module is loaded and
  \<open>render_pages\<close> depends on the Jinja2 templates, so both are parameters here, as is
  the JSON parser. The result is the file system after the run and the exception, if any.
\<close>

definition main ::
  "string \<Rightarrow> (string \<Rightarrow> json option) \<Rightarrow>
   (json \<Rightarrow> filesystem \<Rightarrow> filesystem \<times> (py_error + unit)) \<Rightarrow>
   filesystem \<Rightarrow> filesystem \<times> (py_error + unit)" where
  "main DATA_DIR json_loads render_pages fs =
     (let json_path = path_join DATA_DIR ''top_niches.json''
      in if fs json_path = None
         then (fs, Inl (FileNotFoundError (json_path @ '' not found. Run niche_selection.py first.'')))
         else (case load_top_niche json_loads fs json_path of
                 Inl e \<Rightarrow> (fs, Inl e)
               | Inr niche_data \<Rightarrow> render_pages niche_data fs))"

section \<open>Example tables, states and requests\<close>

text \<open>
  The Unicode tables on the blocks Basic Latin and Latin-1 Supplement, on the 24
  letters of the Greek alphabet in both cases, with the final sigma, and on MODIFIER
  LETTER SMALL H, which is cased and case-ignorable at once. Code points outside these
  are left as they are; the examples below do not use them.
\<close>

definition example_unicode_db :: unicode_db where
  "example_unicode_db =
     \<lparr>IsCased = (\<lambda>c. (0x41 \<le> c \<and> c \<le> 0x5A) \<or> (0x61 \<le> c \<and> c \<le> 0x7A) \<or>
                       c = 0xAA \<or> c = 0xB5 \<or> c = 0xBA \<or>
                       (0xC0 \<le> c \<and> c \<le> 0xD6) \<or> (0xD8 \<le> c \<and> c \<le> 0xF6) \<or>
                       (0xF8 \<le> c \<and> c \<le> 0xFF) \<or>
                       (0x391 \<le> c \<and> c \<le> 0x3A1) \<or> (0x3A3 \<le> c \<and> c \<le> 0x3A9) \<or>
                       (0x3B1 \<le> c \<and> c \<le> 0x3C9) \<or> c = 0x2B0),
      IsCaseIgnorable = (\<lambda>c. c \<in> set [0x27, 0x2E, 0x3A, 0x5E, 0x60, 0xA8, 0xAD, 0xAF, 0xB4,
                                          0xB7, 0xB8, 0x2B0]),
      ToTitleFull = (\<lambda>c. if (0x61 \<le> c \<and> c \<le> 0x7A) \<or> (0xE0 \<le> c \<and> c \<le> 0xF6) \<or>
                               (0xF8 \<le> c \<and> c \<le> 0xFE) then [c - 0x20]
                            else if c = 0xB5 then [0x39C]
                            else if c = 0xDF then [0x53, 0x73]
                            else if c = 0xFF then [0x178]
                            else if c = 0x3C2 then [0x3A3]
                            else if 0x3B1 \<le> c \<and> c \<le> 0x3C9 then [c - 0x20]
                            else [c]),
      ToLowerFull = (\<lambda>c. if (0x41 \<le> c \<and> c \<le> 0x5A) \<or> (0xC0 \<le> c \<and> c \<le> 0xD6) \<or>
                               (0xD8 \<le> c \<and> c \<le> 0xDE) \<or> (0x391 \<le> c \<and> c \<le> 0x3A1) \<or>
                               (0x3A3 \<le> c \<and> c \<le> 0x3A9) then [c + 0x20]
                            else [c])\<rparr>"

definition empty_db :: db where
  "empty_db = \<lparr>sites = [], leads = []\<rparr>"

definition jane :: "str \<Rightarrow> form" where
  \<comment> \<open>the submission of the test suite, for a given slug\<close>
  "jane s = \<lparr>f_site_slug = s, f_name = ascii ''Jane Doe'', f_phone = ascii ''555-123-4567'',
              f_email = Some (ascii ''jane@example.com''),
              f_service = Some (ascii ''Water Extraction''),
              f_message = Some (ascii ''Test message'')\<rparr>"

definition dallas_slug :: str where
  "dallas_slug = ascii ''water-damage-restoration_dallas''"

definition dallas :: "str option \<Rightarrow> Site" where
  "dallas p = \<lparr>id_site = 1, slug = dallas_slug,
                niche = ascii ''Water Damage Restoration'', city = ascii ''Dallas'',
                partner_email = p\<rparr>"

definition dallas_db :: "str option \<Rightarrow> db" where
  "dallas_db p = \<lparr>sites = [dallas p], leads = []\<rparr>"

definition padded :: form where
  \<comment> \<open>a submission with whitespace around name and phone\<close>
  "padded = \<lparr>f_site_slug = dallas_slug, f_name = ascii ''  Jane Doe '',
             f_phone = ascii '' 555-123-4567  '', f_email = None, f_service = Some (ascii '' ''),
             f_message = None\<rparr>"

definition blank_phone :: form where
  \<comment> \<open>a phone number of a no-break space, a blank and an ideographic space\<close>
  "blank_phone = (jane dallas_slug)\<lparr>f_phone := [0xA0, 0x20, 0x3000]\<rparr>"

definition blank_name :: form where
  \<comment> \<open>a name of a tab and a next-line control\<close>
  "blank_name = (jane dallas_slug)\<lparr>f_name := [0x09, 0x85]\<rparr>"

text \<open>
  A database for the scan, read at time \<open>scan_time\<close>. The Dallas site has no partner and
  twelve leads a day apart, the latest a day after the scan, then a lead one microsecond
  older than 30 days and a lead without a timestamp;
  the Austin site has no partner and four recent leads; the Zurich site has a partner and
  six recent leads.
\<close>

definition scan_time :: int where
  "scan_time = 1700000000000000"

definition lead_at :: "nat \<Rightarrow> nat \<Rightarrow> int option \<Rightarrow> Lead" where
  "lead_at k s t = \<lparr>id_lead = k, site_id = s, name = ascii ''Jane Doe'',
                     phone = ascii ''555-123-4567'', email = None, service = None,
                     message = None, timestamp = t, routed = False\<rparr>"

definition austin :: Site where
  "austin = \<lparr>id_site = 2, slug = ascii ''mold-remediation_austin'',
              niche = ascii ''Mold Remediation'', city = ascii ''Austin'', partner_email = None\<rparr>"

definition zurich :: Site where
  "zurich = \<lparr>id_site = 3, slug = ascii ''bar_z'' @ [0xFC] @ ascii ''rich'',
              niche = ascii ''Bar'', city = ascii ''Z'' @ [0xFC] @ ascii ''rich'',
              partner_email = Some (ascii ''partner@example.com'')\<rparr>"

definition scan_db :: db where
  "scan_db =
     \<lparr>sites = [dallas None, austin, zurich],
      leads =
        map (\<lambda>k. lead_at k 1 (Some (scan_time + 2 * 86400000000 - int k * 86400000000))) [1..<13] @
        [lead_at 13 1 (Some (scan_time - timedelta_days 30 - 1)), lead_at 14 1 None] @
        map (\<lambda>k. lead_at k 2 (Some (scan_time - 1000000))) [15..<19] @
        map (\<lambda>k. lead_at k 3 (Some scan_time)) [19..<25]\<rparr>"

text \<open>A parser and a renderer to run \<open>main\<close> with, and a data directory holding an empty ranking.\<close>

definition ex_loads :: "string \<Rightarrow> json option" where
  "ex_loads text = (if text = ''[]'' then Some (JArr []) else None)"

definition ex_render :: "json \<Rightarrow> filesystem \<Rightarrow> filesystem \<times> (py_error + unit)" where
  "ex_render niche_data fs = (fs(''output/index.html'' \<mapsto> File ''<html>''), Inr ())"

definition ex_fs :: filesystem where
  "ex_fs = [''data/top_niches.json'' \<mapsto> File ''[]'']"

section \<open>Auxiliary facts\<close>

lemma fold_max_ge: "fold max ids (m::nat) \<ge> m"
proof (induction ids arbitrary: m)
  case Nil
  then show ?case by simp
next
  case (Cons a ids)
  have "m \<le> max a m" by simp
  also have "max a m \<le> fold max ids (max a m)" by (rule Cons.IH)
  finally show ?case by simp
qed

lemma fold_max_mem: "k \<in> set ids \<Longrightarrow> k \<le> fold max ids (m::nat)"
proof (induction ids arbitrary: m)
  case Nil
  then show ?case by simp
next
  case (Cons a ids)
  show ?case
  proof (cases "k = a")
    case True
    have "max a m \<le> fold max ids (max a m)" by (rule fold_max_ge)
    with True show ?thesis by simp
  next
    case False
    with Cons show ?thesis by simp
  qed
qed

lemma next_id_fresh: "k \<in> set ids \<Longrightarrow> k < next_id ids"
  by (simp add: next_id_def fold_max_mem less_Suc_eq_le)

lemma split_not_Nil: "split sep s \<noteq> []"
  by (induction s) (auto split: list.splits)

lemma length_split: "length (split sep s) = Suc (count_list s sep)"
  by (induction s) (auto split: list.splits simp: split_not_Nil)

lemma split_no_sep: "sep \<notin> set s \<Longrightarrow> split sep s = [s]"
  by (induction s) auto

lemma split_at_first_sep: "sep \<notin> set a \<Longrightarrow> split sep (a @ sep # b) = a # split sep b"
  by (induction a) auto

lemma split_two_parts:
  "sep \<notin> set a \<Longrightarrow> sep \<notin> set b \<Longrightarrow> split sep (a @ sep # b) = [a, b]"
  by (simp add: split_at_first_sep split_no_sep)

lemma derive_fallback:
  assumes "count_list s UNDERSCORE \<noteq> 1"
  shows "derive_niche_city u s = (s, ascii ''Unknown'')"
proof -
  have "length (split UNDERSCORE s) \<noteq> 2"
    using assms by (simp add: length_split)
  then show ?thesis
    by (auto simp: derive_niche_city_def split: list.splits)
qed

lemma find_snoc:
  "find P (xs @ [x]) = (case find P xs of Some y \<Rightarrow> Some y | None \<Rightarrow> if P x then Some x else None)"
  by (induction xs) auto

lemma find_or_create_existing:
  "query_site_by_slug d s = Some site \<Longrightarrow> find_or_create_site u d s = (d, site)"
  by (simp add: find_or_create_site_def)

lemma find_or_create_new:
  "query_site_by_slug d s = None \<Longrightarrow>
   find_or_create_site u d s =
     (d\<lparr>sites := sites d @
          [\<lparr>id_site = next_id (map id_site (sites d)), slug = s,
            niche = fst (derive_niche_city u s), city = snd (derive_niche_city u s),
            partner_email = None\<rparr>]\<rparr>,
      \<lparr>id_site = next_id (map id_site (sites d)), slug = s,
       niche = fst (derive_niche_city u s), city = snd (derive_niche_city u s),
       partner_email = None\<rparr>)"
  by (simp add: find_or_create_site_def add_site_def Let_def split: prod.splits)

lemma find_or_create_leads: "leads (fst (find_or_create_site u d s)) = leads d"
  by (cases "query_site_by_slug d s") (simp_all add: find_or_create_existing find_or_create_new)

lemma create_lead_accepted:
  assumes "accepted r"
  shows "create_lead u d now r =
     (let (d1, site) = find_or_create_site u d (f_site_slug r)
      in (d1\<lparr>leads := leads d1 @
               [\<lparr>id_lead = next_id (map id_lead (leads d1)), site_id = id_site site,
                 name = f_name r, phone = f_phone r, email = f_email r, service = f_service r,
                 message = f_message r, timestamp = Some now,
                 routed = truthy (partner_email site)\<rparr>]\<rparr>,
          Inr \<lparr>response_message =
                 (if truthy (partner_email site) then routed_message else unrouted_message)\<rparr>))"
proof -
  obtain d1 site where fc: "find_or_create_site u d (f_site_slug r) = (d1, site)"
    by (cases "find_or_create_site u d (f_site_slug r)")
  let ?k = "next_id (map id_lead (leads d1))"
  have fresh: "\<forall>l \<in> set (leads d1). id_lead l \<noteq> ?k"
    using next_id_fresh[of _ "map id_lead (leads d1)"] by fastforce
  show ?thesis
    using assms fresh
    by (simp add: create_lead_def accepted_def fc add_lead_def set_routed_def Let_def map_idI)
qed

lemma create_lead_sites:
  "accepted r \<Longrightarrow> sites (fst (create_lead u d now r)) = sites (fst (find_or_create_site u d (f_site_slug r)))"
  by (simp add: create_lead_accepted case_prod_beta)

lemma create_lead_leads:
  "accepted r \<Longrightarrow>
   leads (fst (create_lead u d now r)) = leads d @
     [\<lparr>id_lead = next_id (map id_lead (leads d)),
       site_id = id_site (snd (find_or_create_site u d (f_site_slug r))),
       name = f_name r, phone = f_phone r, email = f_email r, service = f_service r,
       message = f_message r, timestamp = Some now,
       routed = truthy (partner_email (snd (find_or_create_site u d (f_site_slug r))))\<rparr>]"
  by (simp add: create_lead_accepted case_prod_beta find_or_create_leads)



lemma query_None_iff:
  "query_site_by_slug d s = None \<longleftrightarrow> (\<forall>x \<in> set (sites d). slug x \<noteq> s)"
  by (auto simp: query_site_by_slug_def find_None_iff)

lemma query_after_insert:
  assumes "query_site_by_slug d s = None" and "slug row = s" and "sites d' = sites d @ [row]"
  shows "query_site_by_slug d' s = Some row"
  using assms by (simp add: query_site_by_slug_def find_snoc)

lemma create_lead_new_site:
  assumes "accepted r" and "query_site_by_slug d (f_site_slug r) = None"
  shows "sites (fst (create_lead u d now r)) = sites d @
           [\<lparr>id_site = next_id (map id_site (sites d)), slug = f_site_slug r,
             niche = fst (derive_niche_city u (f_site_slug r)),
             city = snd (derive_niche_city u (f_site_slug r)), partner_email = None\<rparr>]"
  using assms by (simp add: create_lead_sites find_or_create_new)

lemma create_lead_existing_site:
  assumes "query_site_by_slug d (f_site_slug r) = Some site"
  shows "sites (fst (create_lead u d now r)) = sites d"
proof (cases "accepted r")
  case True
  with assms show ?thesis
    by (simp add: create_lead_sites find_or_create_existing)
next
  case False
  then show ?thesis
    by (auto simp: accepted_def create_lead_def)
qed

lemma concat_map_if:
  "concat (map (\<lambda>x. if P x then [f x] else []) xs) = map f (filter P xs)"
  by (induction xs) auto

lemma outreach_member:
  "(site, out) \<in> set (check_leads_and_trigger_outreach d now) \<longleftrightarrow>
     site \<in> set (sites d) \<and> partner_email site = None \<and>
     LEAD_THRESHOLD \<le> recent_lead_count d (now - timedelta_days 30) site \<and>
     out = outreach_prints site (recent_lead_count d (now - timedelta_days 30) site)"
  by (auto simp: check_leads_and_trigger_outreach_def Let_def split: if_splits)

section \<open>Validation\<close>

text \<open>
  C2. A request whose name or phone is empty after trimming is answered with the
  HTTP 400 error, and the database is the one before the request: no Lead row and
  no Site row is added. Trimming removes every code point that Python counts as
  whitespace, the no-break space and the other Unicode spaces included.
\<close>

theorem create_lead_blank_rejected:
  "strip (f_name r) = [] \<or> strip (f_phone r) = [] \<Longrightarrow>
   create_lead u d now r =
     (d, Inl (HTTPException 400 (ascii ''Name and phone are required.'')))"
  by (simp add: create_lead_def)

theorem create_lead_blank_rejected_witness:
  "strip (f_phone blank_phone) = [] \<and>
   create_lead example_unicode_db (dallas_db None) 0 blank_phone =
     (dallas_db None, Inl (HTTPException 400 (ascii ''Name and phone are required.''))) \<and>
   strip (f_name blank_name) = [] \<and>
   create_lead example_unicode_db empty_db 0 blank_name =
     (empty_db, Inl (HTTPException 400 (ascii ''Name and phone are required.'')))"
proof -
  have p: "strip (f_phone blank_phone) = []"
    by code_simp
  have n: "strip (f_name blank_name) = []"
    by code_simp
  show ?thesis
    using p n
      create_lead_blank_rejected [OF disjI2, OF p, of example_unicode_db "dallas_db None" 0]
      create_lead_blank_rejected [OF disjI1, OF n, of example_unicode_db empty_db 0]
    by simp
qed

section \<open>Routing decision\<close>






section \<open>Stored values\<close>

text \<open>
  C10. For an accepted submission the Lead row that is stored carries name, phone, email,
  service and message exactly as they were submitted; the trimming of the validation
  check does not reach the stored values.
\<close>

theorem create_lead_stores_verbatim:
  assumes "accepted r"
  shows "\<exists>lead. leads (fst (create_lead u d now r)) = leads d @ [lead] \<and>
           name lead = f_name r \<and> phone lead = f_phone r \<and> email lead = f_email r \<and>
           service lead = f_service r \<and> message lead = f_message r"
  using assms by (simp add: create_lead_leads)

theorem create_lead_stores_verbatim_witness:
  "accepted padded \<and>
   (\<exists>lead. leads (fst (create_lead example_unicode_db empty_db 0 padded))
             = leads empty_db @ [lead] \<and>
           name lead = ascii ''  Jane Doe '' \<and> phone lead = ascii '' 555-123-4567  '' \<and>
           email lead = None \<and> service lead = Some (ascii '' '') \<and> message lead = None)"
proof -
  have h: "accepted padded"
    by code_simp
  show ?thesis
    using h create_lead_stores_verbatim [OF h, of example_unicode_db empty_db 0]
    by (simp add: padded_def)
qed

section \<open>Site resolution\<close>

text \<open>
  C3. For an accepted submission whose slug has no Site yet and consists of two parts
  \<open>a\<close> and \<open>b\<close> around its only underscore, one Site is appended: its slug is the
  submitted slug, its niche is \<open>a\<close> with hyphens replaced by blanks and title-cased, its
  city is \<open>b\<close> under the same transform, and it has no partner contact. Title-casing is
  \<open>str.title()\<close>: in every run of cased code points the first is title-cased and the
  others are lower-cased, by the tables of the interpreter.
\<close>

theorem create_lead_site_from_two_part_slug:
  assumes "accepted r"
    and "query_site_by_slug d (f_site_slug r) = None"
    and "f_site_slug r = a @ [UNDERSCORE] @ b"
    and "UNDERSCORE \<notin> set a" and "UNDERSCORE \<notin> set b"
  shows "sites (fst (create_lead u d now r)) = sites d @
           [\<lparr>id_site = next_id (map id_site (sites d)), slug = f_site_slug r,
             niche = title u (replace_char HYPHEN SPACE a),
             city = title u (replace_char HYPHEN SPACE b),
             partner_email = None\<rparr>]"
proof -
  have "derive_niche_city u (f_site_slug r) =
          (title u (replace_char HYPHEN SPACE a), title u (replace_char HYPHEN SPACE b))"
    using assms(4,5) by (simp add: assms(3) derive_niche_city_def split_two_parts)
  then show ?thesis
    using assms(1,2) by (simp add: create_lead_new_site)
qed

text \<open>
  Three submissions: the lower-case slug of the test suite; a slug in mixed case whose
  city part is "z", LATIN CAPITAL LETTER U WITH DIAERESIS, "RICH", which is stored with
  only its first letter in upper case; and a slug whose city part is MODIFIER LETTER
  SMALL H, then the Greek capitals sigma, alpha, sigma, an apostrophe, and the capitals
  alpha, sigma: the first sigma follows nothing cased but the case-ignorable modifier
  letter, the second has a cased letter after the case-ignorable apostrophe, so both
  take the plain small sigma, and the last one takes the final sigma.
\<close>

theorem create_lead_site_from_two_part_slug_witness:
  "accepted (jane dallas_slug) \<and>
   query_site_by_slug empty_db (f_site_slug (jane dallas_slug)) = None \<and>
   f_site_slug (jane dallas_slug) =
     ascii ''water-damage-restoration'' @ [UNDERSCORE] @ ascii ''dallas'' \<and>
   UNDERSCORE \<notin> set (ascii ''water-damage-restoration'') \<and> UNDERSCORE \<notin> set (ascii ''dallas'') \<and>
   sites (fst (create_lead example_unicode_db empty_db 0 (jane dallas_slug))) =
     [\<lparr>id_site = 1, slug = dallas_slug, niche = ascii ''Water Damage Restoration'',
       city = ascii ''Dallas'', partner_email = None\<rparr>] \<and>
   sites (fst (create_lead example_unicode_db empty_db 0
                 (jane (ascii ''WATER-damage'' @ [UNDERSCORE] @ ascii ''z'' @ [0xDC] @ ascii ''RICH'')))) =
     [\<lparr>id_site = 1,
       slug = ascii ''WATER-damage'' @ [UNDERSCORE] @ ascii ''z'' @ [0xDC] @ ascii ''RICH'',
       niche = ascii ''Water Damage'', city = ascii ''Z'' @ [0xFC] @ ascii ''rich'',
       partner_email = None\<rparr>] \<and>
   sites (fst (create_lead example_unicode_db empty_db 0
                 (jane (ascii ''taverna'' @ [UNDERSCORE] @ [0x2B0, 0x3A3, 0x391, 0x3A3, 0x27, 0x391, 0x3A3])))) =
     [\<lparr>id_site = 1,
       slug = ascii ''taverna'' @ [UNDERSCORE] @ [0x2B0, 0x3A3, 0x391, 0x3A3, 0x27, 0x391, 0x3A3],
       niche = ascii ''Taverna'', city = [0x2B0, 0x3C3, 0x3B1, 0x3C3, 0x27, 0x391, 0x3C2],
       partner_email = None\<rparr>]"
proof -
  let ?u = example_unicode_db
  let ?z = "ascii ''z'' @ [0xDC] @ ascii ''RICH''"
  let ?g = "[0x2B0, 0x3A3, 0x391, 0x3A3, 0x27, 0x391, 0x3A3] :: str"
  have acc: "accepted (jane s)" for s
    by (simp add: accepted_def jane_def) code_simp
  have unseen: "query_site_by_slug empty_db s = None" for s
    by (simp add: query_site_by_slug_def empty_db_def)
  have slug: "f_site_slug (jane s) = s" for s
    by (simp add: jane_def)
  have h3: "f_site_slug (jane dallas_slug) =
              ascii ''water-damage-restoration'' @ [UNDERSCORE] @ ascii ''dallas''"
    by code_simp
  have h4: "UNDERSCORE \<notin> set (ascii ''water-damage-restoration'')"
    by code_simp
  have h5: "UNDERSCORE \<notin> set (ascii ''dallas'')"
    by code_simp
  have k4: "UNDERSCORE \<notin> set (ascii ''WATER-damage'')"
    by code_simp
  have k5: "UNDERSCORE \<notin> set ?z"
    by code_simp
  have g4: "UNDERSCORE \<notin> set (ascii ''taverna'')"
    by code_simp
  have g5: "UNDERSCORE \<notin> set ?g"
    by code_simp
  have t1: "title ?u (replace_char HYPHEN SPACE (ascii ''water-damage-restoration''))
              = ascii ''Water Damage Restoration''"
    by code_simp
  have t2: "title ?u (replace_char HYPHEN SPACE (ascii ''dallas'')) = ascii ''Dallas''"
    by code_simp
  have t3: "title ?u (replace_char HYPHEN SPACE (ascii ''WATER-damage'')) = ascii ''Water Damage''"
    by code_simp
  have t4: "title ?u (replace_char HYPHEN SPACE ?z) = ascii ''Z'' @ [0xFC] @ ascii ''rich''"
    by code_simp
  have t5: "title ?u (replace_char HYPHEN SPACE (ascii ''taverna'')) = ascii ''Taverna''"
    by code_simp
  have t6: "title ?u (replace_char HYPHEN SPACE ?g) = [0x2B0, 0x3C3, 0x3B1, 0x3C3, 0x27, 0x391, 0x3C2]"
    by code_simp
  have e: "sites empty_db = []"
    by (simp add: empty_db_def)
  note first = create_lead_site_from_two_part_slug [OF acc unseen h3 h4 h5, of ?u 0]
  note second = create_lead_site_from_two_part_slug
    [OF acc unseen slug k4 k5, of ?u 0]
  note third = create_lead_site_from_two_part_slug
    [OF acc unseen slug g4 g5, of ?u 0]
  have r1: "sites (fst (create_lead ?u empty_db 0 (jane dallas_slug))) =
     [\<lparr>id_site = 1, slug = dallas_slug, niche = ascii ''Water Damage Restoration'',
       city = ascii ''Dallas'', partner_email = None\<rparr>]"
    unfolding first t1 t2 e slug by (simp add: next_id_def)
  have r2: "sites (fst (create_lead ?u empty_db 0 (jane (ascii ''WATER-damage'' @ [UNDERSCORE] @ ?z)))) =
     [\<lparr>id_site = 1, slug = ascii ''WATER-damage'' @ [UNDERSCORE] @ ?z,
       niche = ascii ''Water Damage'', city = ascii ''Z'' @ [0xFC] @ ascii ''rich'',
       partner_email = None\<rparr>]"
    unfolding second t3 t4 e slug by (simp add: next_id_def)
  have r3: "sites (fst (create_lead ?u empty_db 0 (jane (ascii ''taverna'' @ [UNDERSCORE] @ ?g)))) =
     [\<lparr>id_site = 1, slug = ascii ''taverna'' @ [UNDERSCORE] @ ?g,
       niche = ascii ''Taverna'', city = [0x2B0, 0x3C3, 0x3B1, 0x3C3, 0x27, 0x391, 0x3C2],
       partner_email = None\<rparr>]"
    unfolding third t5 t6 e slug by (simp add: next_id_def)
  show ?thesis
    using acc [of dallas_slug] unseen [of "f_site_slug (jane dallas_slug)"] h3 h4 h5 r1 r2 r3
    by simp
qed

text \<open>
  C4. For an accepted submission whose slug has no Site yet and holds no underscore or
  more than one, the Site that is appended has the raw slug as its niche and the literal
  "Unknown" as its city.
\<close>

theorem create_lead_site_from_other_slug:
  assumes "accepted r"
    and "query_site_by_slug d (f_site_slug r) = None"
    and "count_list (f_site_slug r) UNDERSCORE \<noteq> 1"
  shows "sites (fst (create_lead u d now r)) = sites d @
           [\<lparr>id_site = next_id (map id_site (sites d)), slug = f_site_slug r,
             niche = f_site_slug r, city = ascii ''Unknown'', partner_email = None\<rparr>]"
  using assms by (simp add: create_lead_new_site derive_fallback)

theorem create_lead_site_from_other_slug_witness:
  "accepted (jane (ascii ''water-damage-restoration'')) \<and>
   query_site_by_slug (dallas_db None) (f_site_slug (jane (ascii ''water-damage-restoration''))) = None \<and>
   count_list (f_site_slug (jane (ascii ''water-damage-restoration''))) UNDERSCORE \<noteq> 1 \<and>
   sites (fst (create_lead example_unicode_db (dallas_db None) 0
                 (jane (ascii ''water-damage-restoration'')))) =
     [dallas None,
      \<lparr>id_site = 2, slug = ascii ''water-damage-restoration'',
       niche = ascii ''water-damage-restoration'', city = ascii ''Unknown'',
       partner_email = None\<rparr>] \<and>
   count_list (f_site_slug (jane (ascii ''mold_remediation_fort-worth''))) UNDERSCORE \<noteq> 1 \<and>
   sites (fst (create_lead example_unicode_db empty_db 0
                 (jane (ascii ''mold_remediation_fort-worth'')))) =
     [\<lparr>id_site = 1, slug = ascii ''mold_remediation_fort-worth'',
       niche = ascii ''mold_remediation_fort-worth'', city = ascii ''Unknown'',
       partner_email = None\<rparr>]"
proof -
  have h1: "accepted (jane (ascii ''water-damage-restoration''))"
    by code_simp
  have h2: "query_site_by_slug (dallas_db None)
              (f_site_slug (jane (ascii ''water-damage-restoration''))) = None"
    by code_simp
  have h3: "count_list (f_site_slug (jane (ascii ''water-damage-restoration''))) UNDERSCORE \<noteq> 1"
    by code_simp
  have k1: "accepted (jane (ascii ''mold_remediation_fort-worth''))"
    by code_simp
  have k2: "query_site_by_slug empty_db (f_site_slug (jane (ascii ''mold_remediation_fort-worth''))) = None"
    by code_simp
  have k3: "count_list (f_site_slug (jane (ascii ''mold_remediation_fort-worth''))) UNDERSCORE \<noteq> 1"
    by code_simp
  have s: "sites (dallas_db None) = [dallas None]"
    by (simp add: dallas_db_def)
  have e: "sites empty_db = []"
    by (simp add: empty_db_def)
  have g: "f_site_slug (jane x) = x" for x
    by (simp add: jane_def)
  show ?thesis
    using h1 h2 h3 k3
      create_lead_site_from_other_slug [OF h1 h2 h3, of example_unicode_db 0]
      create_lead_site_from_other_slug [OF k1 k2 k3, of example_unicode_db 0]
    by (simp add: s g e next_id_def dallas_def)
qed

text \<open>
  C6. A submission whose slug resolves to an existing Site leaves the Site table as it
  is. In every case the table after the request is the table before it, followed by at
  most one new row, and a row is added only by an accepted submission for a slug that
  had no Site; no existing row is changed or removed.
\<close>

theorem create_lead_never_rewrites_sites:
  "(query_site_by_slug d (f_site_slug r) \<noteq> None \<longrightarrow>
      sites (fst (create_lead u d now r)) = sites d) \<and>
   (\<exists>new. sites (fst (create_lead u d now r)) = sites d @ new \<and> length new \<le> 1 \<and>
      (new \<noteq> [] \<longrightarrow> accepted r \<and> query_site_by_slug d (f_site_slug r) = None \<and>
                       slug (hd new) = f_site_slug r))"
proof (cases "query_site_by_slug d (f_site_slug r)")
  case (Some site)
  then show ?thesis
    by (simp add: create_lead_existing_site)
next
  case None
  show ?thesis
  proof (cases "accepted r")
    case True
    with None show ?thesis
      by (simp add: create_lead_new_site)
  next
    case False
    then have "sites (fst (create_lead u d now r)) = sites d"
      by (auto simp: accepted_def create_lead_def)
    with None show ?thesis by simp
  qed
qed

theorem create_lead_never_rewrites_sites_witness:
  "query_site_by_slug (dallas_db (Some (ascii ''partner@example.com'')))
     (f_site_slug (jane dallas_slug)) \<noteq> None \<and>
   accepted (jane dallas_slug) \<and>
   sites (fst (create_lead example_unicode_db (dallas_db (Some (ascii ''partner@example.com''))) 0
                 (jane dallas_slug)))
     = sites (dallas_db (Some (ascii ''partner@example.com'')))"
proof -
  have h: "query_site_by_slug (dallas_db (Some (ascii ''partner@example.com'')))
             (f_site_slug (jane dallas_slug)) \<noteq> None"
    by code_simp
  have a: "accepted (jane dallas_slug)"
    by code_simp
  show ?thesis
    using h a create_lead_never_rewrites_sites
      [of "dallas_db (Some (ascii ''partner@example.com''))" "jane dallas_slug" example_unicode_db 0]
    by simp
qed

text \<open>
  C5. Two accepted submissions with the same slug, from a state with no Site for that
  slug: afterwards the Site table has gained exactly one row, it is the only row with
  that slug and the only row with its key, and the Lead table has gained exactly two
  rows, both of which reference that Site.
\<close>

theorem two_leads_one_site:
  assumes a1: "accepted r1" and a2: "accepted r2"
    and same: "f_site_slug r2 = f_site_slug r1"
    and unseen: "query_site_by_slug d (f_site_slug r1) = None"
  shows "\<exists>site l1 l2.
           sites (fst (create_lead u (fst (create_lead u d t1 r1)) t2 r2)) = sites d @ [site] \<and>
           filter (\<lambda>s. slug s = f_site_slug r1)
             (sites (fst (create_lead u (fst (create_lead u d t1 r1)) t2 r2))) = [site] \<and>
           filter (\<lambda>s. id_site s = id_site site)
             (sites (fst (create_lead u (fst (create_lead u d t1 r1)) t2 r2))) = [site] \<and>
           leads (fst (create_lead u (fst (create_lead u d t1 r1)) t2 r2)) = leads d @ [l1, l2] \<and>
           site_id l1 = id_site site \<and> site_id l2 = id_site site"
proof -
  let ?site = "\<lparr>id_site = next_id (map id_site (sites d)), slug = f_site_slug r1,
                 niche = fst (derive_niche_city u (f_site_slug r1)),
                 city = snd (derive_niche_city u (f_site_slug r1)), partner_email = None\<rparr>"
  let ?d1 = "fst (create_lead u d t1 r1)"
  let ?d2 = "fst (create_lead u ?d1 t2 r2)"
  have s1: "sites ?d1 = sites d @ [?site]"
    using a1 unseen by (rule create_lead_new_site)
  have r1: "snd (find_or_create_site u d (f_site_slug r1)) = ?site"
    using unseen by (simp add: find_or_create_new)
  have q: "query_site_by_slug ?d1 (f_site_slug r2) = Some ?site"
    unfolding same using unseen _ s1 by (rule query_after_insert) simp
  have s2: "sites ?d2 = sites d @ [?site]"
    using q s1 by (simp add: create_lead_existing_site)
  have r2: "snd (find_or_create_site u ?d1 (f_site_slug r2)) = ?site"
    using q by (simp add: find_or_create_existing)
  have old_slug: "filter (\<lambda>s. slug s = f_site_slug r1) (sites d) = []"
    using unseen by (simp add: query_None_iff filter_empty_conv)
  have old_id: "filter (\<lambda>s. id_site s = next_id (map id_site (sites d))) (sites d) = []"
    using next_id_fresh[of _ "map id_site (sites d)"] by (fastforce simp: filter_empty_conv)
  have l1: "leads ?d1 = leads d @ [\<lparr>id_lead = next_id (map id_lead (leads d)),
       site_id = id_site ?site,
       name = f_name r1, phone = f_phone r1, email = f_email r1, service = f_service r1,
       message = f_message r1, timestamp = Some t1,
       routed = truthy (partner_email ?site)\<rparr>]"
    using a1 by (simp only: create_lead_leads r1)
  have l2: "leads ?d2 = leads ?d1 @ [\<lparr>id_lead = next_id (map id_lead (leads ?d1)),
       site_id = id_site ?site,
       name = f_name r2, phone = f_phone r2, email = f_email r2, service = f_service r2,
       message = f_message r2, timestamp = Some t2,
       routed = truthy (partner_email ?site)\<rparr>]"
    using a2 by (simp only: create_lead_leads r2)
  show ?thesis
    apply (rule exI[of _ ?site])
    apply (simp only: s2 l2 l1)
    apply (simp add: old_slug old_id)
    done
qed

theorem two_leads_one_site_witness:
  "accepted (jane dallas_slug) \<and> accepted padded \<and>
   f_site_slug padded = f_site_slug (jane dallas_slug) \<and>
   query_site_by_slug empty_db (f_site_slug (jane dallas_slug)) = None \<and>
   (\<exists>site l1 l2.
      sites (fst (create_lead example_unicode_db (fst (create_lead example_unicode_db empty_db 10
                                     (jane dallas_slug))) 20 padded))
        = sites empty_db @ [site] \<and>
      leads (fst (create_lead example_unicode_db (fst (create_lead example_unicode_db empty_db 10
                                     (jane dallas_slug))) 20 padded))
        = leads empty_db @ [l1, l2] \<and>
      site_id l1 = id_site site \<and> site_id l2 = id_site site)"
proof -
  have h1: "accepted (jane dallas_slug)"
    by code_simp
  have h2: "accepted padded"
    by code_simp
  have h3: "f_site_slug padded = f_site_slug (jane dallas_slug)"
    by code_simp
  have h4: "query_site_by_slug empty_db (f_site_slug (jane dallas_slug)) = None"
    by code_simp
  show ?thesis
    using h1 h2 h3 h4 two_leads_one_site [OF h1 h2 h3 h4, of example_unicode_db 10 20]
    by blast
qed

section \<open>Outreach\<close>

text \<open>
  C7. In every database state the scan prints a notification for a Site exactly when the
  Site is in the table with a null partner contact and at least five of its Leads carry a
  timestamp that is not earlier than 30 days before the scan. The notification is the
  pair of printed texts, the announcement with the slug, the count and the city, and the
  e-mail draft with niche, city and count; the scan prints one such pair for each of
  these Sites, in table order, and nothing else. The window is the comparison of the
  query, \<open>timestamp >= cutoff\<close>: it has no upper end, so a Lead dated after the scan is
  counted too, and a Lead without a timestamp is not counted.
\<close>

theorem outreach_iff_unpartnered_and_threshold:
  "(let recent = (\<lambda>site. length (filter
                     (\<lambda>l. site_id l = id_site site \<and>
                          (case timestamp l of
                             None \<Rightarrow> False
                           | Some t \<Rightarrow> now - 30 * 86400 * 1000000 \<le> t))
                     (leads d)));
        announcement = (\<lambda>site.
          ascii ''Sales Automation: Site '' @ [0x27] @ slug site @ [0x27] @
          ascii '' generated '' @ str_nat (recent site) @ ascii '' leads in the last 30 days. '' @
          ascii ''Initiating outreach to potential partners in '' @ city site @ ascii ''.'');
        draft = (\<lambda>site.
          ascii ''Email content:'' @ [0x0A] @
          ascii ''Hello,'' @ [0x0A, 0x0A] @ ascii ''We operate '' @ niche site @
          ascii '' websites in '' @ city site @ ascii '' and have generated '' @
          str_nat (recent site) @ ascii '' high-intent leads '' @
          ascii ''over the past 30 days. We are looking for a local business partner to take these leads on a '' @
          ascii ''pay-per-lead or subscription basis. If you are interested, please reply to discuss pricing.'' @
          [0x0A, 0x0A] @ ascii ''Regards,'' @ [0x0A] @ ascii ''Local Authority Lead Engine'' @
          [0x0A])
    in check_leads_and_trigger_outreach d now =
         map (\<lambda>site. (site, [announcement site, draft site]))
             (filter (\<lambda>site. partner_email site = None \<and> 5 \<le> recent site) (sites d)) \<and>
       (\<forall>site. site \<in> fst ` set (check_leads_and_trigger_outreach d now) \<longleftrightarrow>
                 site \<in> set (sites d) \<and> partner_email site = None \<and> 5 \<le> recent site))"
proof -
  have run: "check_leads_and_trigger_outreach d now =
      map (\<lambda>site. (site, outreach_prints site (recent_lead_count d (now - timedelta_days 30) site)))
          (filter (\<lambda>site. partner_email site = None \<and>
                           LEAD_THRESHOLD \<le> recent_lead_count d (now - timedelta_days 30) site)
                  (sites d))"
    by (simp add: check_leads_and_trigger_outreach_def Let_def concat_map_if conj_commute)
  have member: "site \<in> fst ` set (check_leads_and_trigger_outreach d now) \<longleftrightarrow>
      site \<in> set (sites d) \<and> partner_email site = None \<and>
      LEAD_THRESHOLD \<le> recent_lead_count d (now - timedelta_days 30) site" for site
  proof -
    have "site \<in> fst ` set (check_leads_and_trigger_outreach d now) \<longleftrightarrow>
            (\<exists>out. (site, out) \<in> set (check_leads_and_trigger_outreach d now))"
      by force
    then show ?thesis by (simp add: outreach_member)
  qed
  have c1: "check_leads_and_trigger_outreach d now = R" if "R = map (\<lambda>site. (site, outreach_prints site (recent_lead_count d (now - timedelta_days 30) site)))
          (filter (\<lambda>site. partner_email site = None \<and>
                           LEAD_THRESHOLD \<le> recent_lead_count d (now - timedelta_days 30) site)
                  (sites d))" for R
    using that run by simp
  show ?thesis
    unfolding Let_def
    apply (rule conjI)
     apply (rule c1)
     apply (simp only: outreach_prints_def email_body_def recent_lead_count_def
          LEAD_THRESHOLD_def timedelta_days_def append_assoc)
     apply simp
    apply (simp only: member recent_lead_count_def LEAD_THRESHOLD_def timedelta_days_def)
    apply simp
    done
qed

text \<open>
  The scan of the example database prints for the Dallas site alone, with the count 12:
  the lead dated after the scan is counted, the one older than 30 days and the one
  without a timestamp are not; Austin has too few leads and Zurich has a partner.
\<close>

theorem outreach_iff_unpartnered_and_threshold_witness:
  "check_leads_and_trigger_outreach scan_db scan_time =
     [(dallas None,
       [ascii ''Sales Automation: Site '' @ [0x27] @ ascii ''water-damage-restoration_dallas'' @
          [0x27] @ ascii '' generated 12 leads in the last 30 days. Initiating outreach to potential partners in Dallas.'',
        ascii ''Email content:'' @ [0x0A] @ ascii ''Hello,'' @ [0x0A, 0x0A] @
          ascii ''We operate Water Damage Restoration websites in Dallas and have generated 12 high-intent leads over the past 30 days. We are looking for a local business partner to take these leads on a pay-per-lead or subscription basis. If you are interested, please reply to discuss pricing.'' @
          [0x0A, 0x0A] @ ascii ''Regards,'' @ [0x0A] @ ascii ''Local Authority Lead Engine'' @
          [0x0A]])]"
proof -
  note run = outreach_iff_unpartnered_and_threshold
    [of scan_time scan_db, unfolded Let_def, THEN conjunct1]
  show ?thesis
    unfolding run by code_simp
qed

section \<open>Site generation without data\<close>

text \<open>
  C8. When the ranked-niche file is absent, \<open>main\<close> raises \<open>FileNotFoundError\<close> with
  the path in its message; when the file is present and parses to the empty list, it raises
  \<open>ValueError\<close> "No niche data found. Run niche_selection.py first.". In both
  cases the file system is the one before the run, whatever the renderer would write.
\<close>

theorem main_fails_without_niche_data:
  "(fs (path_join DATA_DIR ''top_niches.json'') = None \<longrightarrow>
      main DATA_DIR json_loads render_pages fs =
        (fs, Inl (FileNotFoundError
                    (path_join DATA_DIR ''top_niches.json'' @
                     '' not found. Run niche_selection.py first.'')))) \<and>
   (\<forall>text. fs (path_join DATA_DIR ''top_niches.json'') = Some (File text) \<and>
           json_loads text = Some (JArr []) \<longrightarrow>
      main DATA_DIR json_loads render_pages fs =
        (fs, Inl (ValueError ''No niche data found. Run niche_selection.py first.'')))"
  by (simp add: main_def load_top_niche_def Let_def)

theorem main_fails_without_niche_data_witness:
  "Map.empty (path_join ''data'' ''top_niches.json'') = (None :: node option) \<and>
   main ''data'' ex_loads ex_render Map.empty =
     (Map.empty, Inl (FileNotFoundError ''data/top_niches.json not found. Run niche_selection.py first.'')) \<and>
   ex_fs (path_join ''data'' ''top_niches.json'') = Some (File ''[]'') \<and>
   ex_loads ''[]'' = Some (JArr []) \<and>
   main ''data'' ex_loads ex_render ex_fs =
     (ex_fs, Inl (ValueError ''No niche data found. Run niche_selection.py first.''))"
proof -
  have p: "path_join ''data'' ''top_niches.json'' = ''data/top_niches.json''"
    by (simp add: path_join_def)
  have h1: "ex_fs (path_join ''data'' ''top_niches.json'') = Some (File ''[]'')"
    by (simp add: p ex_fs_def)
  have h2: "ex_loads ''[]'' = Some (JArr [])"
    by (simp add: ex_loads_def)
  show ?thesis
    using h1 h2
      main_fails_without_niche_data [of Map.empty "''data''" ex_loads ex_render]
      main_fails_without_niche_data [of ex_fs "''data''" ex_loads ex_render]
    by (simp add: p)
qed

end
